theory Spec2Isabelle
  imports Main
begin

section \<open>Strings and arrays of the host language\<close>

text \<open>
  Tokens are \<^typ>\<open>string\<close>s. The helpers below are the string and array methods the
  source calls, restricted to the way it calls them (a one-character separator, a
  one-character needle).
\<close>

definition startsWith :: "string \<Rightarrow> string \<Rightarrow> bool" where
  "startsWith s p = (take (length p) s = p)"

definition includes_str :: "string \<Rightarrow> char \<Rightarrow> bool" where
  "includes_str s c = (c \<in> set s)"

text \<open>\<open>s.split(c)\<close>: always at least one piece; the empty string gives one empty piece.\<close>

fun split :: "string \<Rightarrow> char \<Rightarrow> string list" where
  "split [] c = [[]]"
| "split (x # xs) c =
     (if x = c then [] # split xs c
      else (let ps = split xs c in (x # hd ps) # tl ps))"

text \<open>\<open>ps.join(sep)\<close>.\<close>

fun join :: "string list \<Rightarrow> string \<Rightarrow> string" where
  "join [] sep = []"
| "join [p] sep = p"
| "join (p # q # ps) sep = p @ sep @ join (q # ps) sep"

text \<open>
  \<open>toLowerCase\<close> on the ASCII letters. The source only compares lowered strings with the
  ASCII literals \<open>0\<close>, \<open>1\<close>, \<open>true\<close> and \<open>false\<close>, and no character outside ASCII lowers
  to one of their letters.
\<close>

definition toLowerChar :: "char \<Rightarrow> char" where
  "toLowerChar c =
     (case map_of (zip ''ABCDEFGHIJKLMNOPQRSTUVWXYZ'' ''abcdefghijklmnopqrstuvwxyz'') c of
        Some l \<Rightarrow> l
      | None \<Rightarrow> c)"

definition toLowerCase :: "string \<Rightarrow> string" where
  "toLowerCase s = map toLowerChar s"

text \<open>
  Truthiness of the result of \<open>Array.prototype.find\<close> on strings: \<open>undefined\<close> (nothing
  found) and the empty string are falsy.
\<close>

fun truthy :: "string option \<Rightarrow> bool" where
  "truthy None = False"
| "truthy (Some s) = (s \<noteq> [])"

text \<open>
  \<open>arr.slice(start, end)\<close> with the relative indices of the language: a negative index
  counts from the end, and both are clamped to the array.
\<close>

definition slice :: "'a list \<Rightarrow> int \<Rightarrow> int \<Rightarrow> 'a list" where
  "slice arr start end' =
     (let len = int (length arr);
          k = (if start < 0 then max (len + start) 0 else min start len);
          final = (if end' < 0 then max (len + end') 0 else min end' len)
      in take (nat (final - k)) (drop (nat k) arr))"

definition removeByIndex :: "'a list \<Rightarrow> int \<Rightarrow> 'a list" where
  "removeByIndex arr idx = slice arr 0 idx @ slice arr (idx + 1) (int (length arr))"

section \<open>Data model\<close>

text \<open>
  An option value: \<open>string | boolean | number | undefined\<close>. Numbers are kept abstract
  (type \<open>'n\<close>); the numeric operations of the host language are parameters of the parser.
  \<open>Inherited m\<close> is the one value of another kind that the result object can come to
  hold: the member \<open>m\<close> that a plain object inherits from \<open>Object.prototype\<close>.
\<close>

datatype 'n OutputType = Undefined | Str string | Bool bool | Num 'n | Inherited string

datatype OptionType = T_string | T_number | T_boolean | T_positional

record 'n ProcessedBuilderConfig =
  opt_name :: string
  opt_aliases :: "string list"
  opt_type :: OptionType
  isRequired :: bool
  default_val :: "'n OutputType"
  enumVals :: "string list option"
  isInt :: bool
  minVal :: "'n option"
  maxVal :: "'n option"

text \<open>
  A parsed option map is a JavaScript object: its own keys with their values. The value
  \<open>undefined\<close> of the function result is \<open>None\<close>.
\<close>

type_synonym 'n OptionMap = "(string \<times> 'n OutputType) list"

text \<open>
  A command. The parent back-reference serves the rendering of messages only and is not
  part of the model; \<open>handler\<close> records whether a handler is declared, \<open>transform\<close> is the
  declared transform if any.
\<close>

datatype 'n Command = Command
  (name: string)
  (aliases: "string list option")
  (options: "(string \<times> 'n ProcessedBuilderConfig) list option")
  (subcommands: "'n Command list option")
  (transform: "('n OptionMap option \<Rightarrow> 'n OptionMap option) option")
  (handler: bool)

record CommandCandidate =
  data :: string
  originalIndex :: int

text \<open>
  Errors are values. Each constructor keeps the arguments its message is built from; the
  text of the messages is not modelled. \<open>TypeError\<close> is the host language's error on
  destructuring \<open>undefined\<close>.
\<close>

datatype 'n error =
    UnknownCommand string
  | UnknownSubcommand string string
  | MissingRequired string "string list list"
  | UnrecognizedOptions string "string list"
  | InvalidBooleanSyntax string
  | InvalidStringSyntax string
  | EnumViolation string "string option" "string list"
  | EnumViolationPos string string "string list"
  | InvalidNumberSyntax string
  | InvalidNumberValue string "string option"
  | InvalidInteger string "string option"
  | BelowMin string "string option" 'n
  | AboveMax string "string option" 'n
  | CommandNameInUse string string
  | CommandAliasInUse string string string
  | TypeError

section \<open>Command resolution\<close>

definition isBooleanLiteral :: "string option \<Rightarrow> bool" where
  "isBooleanLiteral l =
     (l = Some ''0'' \<or> l = Some ''1'' \<or> l = Some ''true'' \<or> l = Some ''false'')"

text \<open>\<open>args[i]\<close>, which is \<open>undefined\<close> out of range.\<close>

definition at :: "'a list \<Rightarrow> nat \<Rightarrow> 'a option" where
  "at xs i = (if i < length xs then Some (xs ! i) else None)"

text \<open>The candidate scan of \<open>getCommand\<close>: the \<open>for\<close> loop with its cursor \<open>i\<close>.\<close>

function scanCandidates :: "string list \<Rightarrow> nat \<Rightarrow> CommandCandidate list" where
  "scanCandidates args i =
     (if i < length args then
        (let arg = args ! i in
         if arg = ''--help'' \<or> arg = ''-h'' \<or> arg = ''--version'' \<or> arg = ''-v'' then
           (let lCaseNext = map_option toLowerCase (at args (i + 1)) in
            if isBooleanLiteral lCaseNext then scanCandidates args (i + 2)
            else scanCandidates args (i + 1))
         else if startsWith arg ''-'' then
           (if \<not> includes_str arg CHR ''='' then scanCandidates args (i + 2)
            else scanCandidates args (i + 1))
         else \<lparr>data = arg, originalIndex = int i\<rparr> # scanCandidates args (i + 1))
      else [])"
  by pat_completeness auto
termination
  by (relation "measure (\<lambda>(args, i). length args - i)") auto

declare scanCandidates.simps [simp del]

definition commandNames :: "'n Command \<Rightarrow> string list" where
  "commandNames c = (case aliases c of Some as \<Rightarrow> name c # as | None \<Rightarrow> [name c])"

definition findCommand :: "'n Command list \<Rightarrow> string \<Rightarrow> 'n Command option" where
  "findCommand commands arg =
     List.find (\<lambda>c. truthy (List.find (\<lambda>name. name = arg) (commandNames c))) commands"

definition shiftCandidate :: "CommandCandidate \<Rightarrow> CommandCandidate" where
  "shiftCandidate c = \<lparr>data = data c, originalIndex = originalIndex c - 1\<rparr>"

function getCommandInner ::
  "'n Command list \<Rightarrow> CommandCandidate list \<Rightarrow> string list
     \<Rightarrow> 'n error + ('n Command option \<times> string list)" where
  "getCommandInner commands [] args = Inl TypeError"
| "getCommandInner commands (c # candidates) args =
     (let arg = data c; index = originalIndex c in
      case findCommand commands arg of
        None \<Rightarrow> Inr (None, args)
      | Some command \<Rightarrow>
          (let newArgs = removeByIndex args index in
           if candidates = [] \<or> subcommands command = None then Inr (Some command, newArgs)
           else
             (let newCandidates = map shiftCandidate candidates in
              case getCommandInner (the (subcommands command)) newCandidates newArgs of
                Inl e \<Rightarrow> Inl e
              | Inr subcommand \<Rightarrow>
                  if fst subcommand = None
                  then Inl (UnknownSubcommand (name command) (data (hd candidates)))
                  else Inr subcommand)))"
  by pat_completeness auto
termination
  by (relation "measure (\<lambda>(commands, candidates, args). length candidates)") auto

text \<open>The command of a resolution: a command, the literal \<open>'help'\<close>, or \<open>undefined\<close>.\<close>

datatype 'n Resolved = NoCommand | HelpLiteral | Cmd "'n Command"

definition getCommand ::
  "'n Command list \<Rightarrow> string list \<Rightarrow> 'n error + ('n Resolved \<times> string list)" where
  "getCommand commands args =
     (let candidates = scanCandidates args 0 in
      if candidates = [] then Inr (NoCommand, args)
      else
        (let firstCandidate = hd candidates in
         if data firstCandidate = ''help''
         then Inr (HelpLiteral, removeByIndex args (originalIndex firstCandidate))
         else
           (case getCommandInner commands candidates args of
              Inl e \<Rightarrow> Inl e
            | Inr (command, argsRes) \<Rightarrow>
                (case command of
                   None \<Rightarrow> Inl (UnknownCommand (data firstCandidate))
                 | Some c \<Rightarrow> Inr (Cmd c, argsRes)))))"







section \<open>Option parsing\<close>

text \<open>
  The numeric operations \<open>parseArg\<close> uses are parameters: \<open>Number\<close> and \<open>isNaN\<close> of the host
  language, \<open>isInt\<close> of the repository's \<open>util\<close> module (not part of the sources at hand),
  and the comparison \<open><\<close> of numbers (\<open>a > b\<close> is \<open>b < a\<close>).
\<close>

record 'n NumericOps =
  js_Number :: "string \<Rightarrow> 'n"
  js_isNaN :: "'n \<Rightarrow> bool"
  util_isInt :: "'n \<Rightarrow> bool"
  js_less :: "'n \<Rightarrow> 'n \<Rightarrow> bool"

text \<open>
  The object \<open>parseArg\<close> returns. A field the source leaves out is \<open>undefined\<close> there:
  \<open>None\<close> for \<open>name\<close> and \<open>option\<close>, \<open>Undefined\<close> for \<open>data\<close>, and \<open>False\<close> for the three
  flags, which the caller only tests for truth.
\<close>

record 'n ParseArgRes =
  res_data :: "'n OutputType"
  res_skipNext :: bool
  res_name :: "string option"
  res_option :: "'n ProcessedBuilderConfig option"
  isHelp :: bool
  isVersion :: bool

definition emptyRes :: "'n ParseArgRes" where
  "emptyRes = \<lparr>res_data = Undefined, res_skipNext = False, res_name = None,
     res_option = None, isHelp = False, isVersion = False\<rparr>"

definition toOutput :: "string option \<Rightarrow> 'n OutputType" where
  "toOutput d = (case d of None \<Rightarrow> Undefined | Some s \<Rightarrow> Str s)"

text \<open>\<open>!enumVals.find((val) => val === dataPart)\<close>: nothing found, or the empty string found.\<close>

definition notInEnum :: "string list \<Rightarrow> string option \<Rightarrow> bool" where
  "notInEnum vals dataPart = (\<not> truthy (List.find (\<lambda>val. Some val = dataPart) vals))"

text \<open>
  \<open>Number(dataPart)\<close>. Where the source calls it \<open>dataPart\<close> is a string; \<open>Number(undefined)\<close>
  is the number \<open>Number('undefined')\<close> is.
\<close>

definition numberOf :: "'n NumericOps \<Rightarrow> string option \<Rightarrow> 'n" where
  "numberOf ops dataPart =
     (case dataPart of Some d \<Rightarrow> js_Number ops d | None \<Rightarrow> js_Number ops ''undefined'')"

text \<open>
  The callback of \<open>options.find\<close> in \<open>parseArg\<close>, for one option: an error when it throws,
  \<open>None\<close> when it returns \<open>false\<close> (it has then assigned nothing), and otherwise the values
  of \<open>data\<close> and \<open>skipNext\<close> after it returned \<open>true\<close>.
\<close>

definition matchOption ::
  "'n NumericOps \<Rightarrow> 'n ProcessedBuilderConfig \<Rightarrow> string \<Rightarrow> string option \<Rightarrow> bool
     \<Rightarrow> string option \<Rightarrow> bool \<Rightarrow> 'n error + ('n OutputType \<times> bool) option" where
  "matchOption ops opt namePart dataPart hasEq nextArg skipNext =
     (let names = opt_name opt # opt_aliases opt in
      if opt_type opt = T_boolean then
        (let match = List.find (\<lambda>name. name = namePart) names in
         if \<not> truthy match then Inr None
         else
           (let lcaseData = map_option toLowerCase dataPart in
            if \<not> hasEq \<and> (case nextArg of None \<Rightarrow> False | Some n \<Rightarrow> startsWith n ''-'')
            then Inr (Some (Bool True, False))
            else if lcaseData = None \<or> lcaseData = Some [] \<or> lcaseData = Some ''true''
                    \<or> lcaseData = Some ''1''
            then Inr (Some (Bool True, skipNext))
            else if lcaseData = Some ''false'' \<or> lcaseData = Some ''0''
            then Inr (Some (Bool False, skipNext))
            else if \<not> hasEq then Inr (Some (Bool True, False))
            else Inl (InvalidBooleanSyntax (the match))))
      else
        (let match = List.find (\<lambda>name. name = namePart) names in
         if \<not> truthy match then Inr None
         else if opt_type opt = T_string then
           (if \<not> hasEq \<and> nextArg = None then Inl (InvalidStringSyntax (the match))
            else if (case enumVals opt of None \<Rightarrow> False | Some vals \<Rightarrow> notInEnum vals dataPart)
            then Inl (EnumViolation (the match) dataPart (the (enumVals opt)))
            else Inr (Some (toOutput dataPart, skipNext)))
         else
           (if \<not> hasEq \<and> nextArg = None then Inl (InvalidNumberSyntax (the match))
            else
              (let numData = numberOf ops dataPart in
               if js_isNaN ops numData then Inl (InvalidNumberValue (the match) dataPart)
               else if isInt opt \<and> \<not> util_isInt ops numData
               then Inl (InvalidInteger (the match) dataPart)
               else if (case minVal opt of None \<Rightarrow> False | Some m \<Rightarrow> js_less ops numData m)
               then Inl (BelowMin (the match) dataPart (the (minVal opt)))
               else if (case maxVal opt of None \<Rightarrow> False | Some m \<Rightarrow> js_less ops m numData)
               then Inl (AboveMax (the match) dataPart (the (maxVal opt)))
               else Inr (Some (toOutput dataPart, skipNext))))))"

text \<open>
  \<open>options.find(callback)\<close>: the first entry on which the callback returns \<open>true\<close>, with
  \<open>data\<close> and \<open>skipNext\<close> as the callback left them; they keep their initial values
  (\<open>undefined\<close> and \<open>!hasEq\<close>) when no entry is found.
\<close>

fun findOption ::
  "'n NumericOps \<Rightarrow> (string \<times> 'n ProcessedBuilderConfig) list \<Rightarrow> string \<Rightarrow> string option
     \<Rightarrow> bool \<Rightarrow> string option \<Rightarrow> bool
     \<Rightarrow> 'n error + ((string \<times> 'n ProcessedBuilderConfig) option \<times> 'n OutputType \<times> bool)" where
  "findOption ops [] namePart dataPart hasEq nextArg skipNext = Inr (None, Undefined, skipNext)"
| "findOption ops (entry # rest) namePart dataPart hasEq nextArg skipNext =
     (case matchOption ops (snd entry) namePart dataPart hasEq nextArg skipNext of
        Inl e \<Rightarrow> Inl e
      | Inr (Some (d, sk)) \<Rightarrow> Inr (Some entry, d, sk)
      | Inr None \<Rightarrow> findOption ops rest namePart dataPart hasEq nextArg skipNext)"

text \<open>
  \<open>parseArg\<close>. It shifts the queue of positional specs in place; the model returns the
  queue as the call leaves it, next to the result.
\<close>

definition parseArg ::
  "'n NumericOps \<Rightarrow> (string \<times> 'n ProcessedBuilderConfig) list
     \<Rightarrow> (string \<times> 'n ProcessedBuilderConfig) list \<Rightarrow> string \<Rightarrow> string option
     \<Rightarrow> 'n error + ('n ParseArgRes \<times> (string \<times> 'n ProcessedBuilderConfig) list)" where
  "parseArg ops options' positionals arg nextArg =
     (let argSplit = split arg CHR ''='';
          hasEq = includes_str arg CHR ''='';
          namePart = hd argSplit;
          dataPart = (if hasEq then Some (join (tl argSplit) ''='') else nextArg);
          skipNext = (\<not> hasEq)
      in
      if namePart = ''--help'' \<or> namePart = ''-h'' then Inr (emptyRes\<lparr>isHelp := True\<rparr>, positionals)
      else if namePart = ''--version'' \<or> namePart = ''-v''
      then Inr (emptyRes\<lparr>isVersion := True\<rparr>, positionals)
      else if \<not> startsWith arg ''-'' then
        (case positionals of
           [] \<Rightarrow> Inr (emptyRes, positionals)
         | pos # rest \<Rightarrow>
             if (case enumVals (snd pos) of None \<Rightarrow> False | Some vals \<Rightarrow> notInEnum vals dataPart)
             then Inl (EnumViolationPos (opt_name (snd pos)) arg (the (enumVals (snd pos))))
             else Inr (\<lparr>res_data = Str arg, res_skipNext = False, res_name = Some (fst pos),
                        res_option = Some (snd pos), isHelp = False, isVersion = False\<rparr>, rest))
      else
        (case findOption ops options' namePart dataPart hasEq nextArg skipNext of
           Inl e \<Rightarrow> Inl e
         | Inr (option, d, sk) \<Rightarrow>
             Inr (\<lparr>res_data = d, res_skipNext = sk, res_name = map_option fst option,
                   res_option = map_option snd option, isHelp = False, isVersion = False\<rparr>,
                  positionals)))"

text \<open>
  Objects used as dictionaries hold their own keys in the order they were first set
  (\<open>setKey\<close> is the assignment \<open>obj[k] = v\<close> of an own key).
\<close>

fun setKey :: "(string \<times> 'v) list \<Rightarrow> string \<Rightarrow> 'v \<Rightarrow> (string \<times> 'v) list" where
  "setKey [] k v = [(k, v)]"
| "setKey ((k', v') # r) k v = (if k' = k then (k, v) # r else (k', v') # setKey r k v)"

text \<open>
  The result object of \<open>parseOptions\<close> starts as \<open>{}\<close>, so it inherits the members of
  \<open>Object.prototype\<close>. Reading a key that is not its own gives the inherited member when
  the key is the name of one, and \<open>undefined\<close> otherwise. The key \<open>__proto__\<close> is an
  accessor: reading it gives the prototype, and assigning to it never makes an own key
  (the values assigned here are primitives or the prototype itself, which leave the
  prototype as it is). \<open>result[name!] = data\<close> with \<open>name\<close> undefined sets the key
  \<open>undefined\<close>.
\<close>

definition objectPrototypeMembers :: "string list" where
  "objectPrototypeMembers =
     [''constructor'', ''__defineGetter__'', ''__defineSetter__'', ''hasOwnProperty'',
      ''__lookupGetter__'', ''__lookupSetter__'', ''isPrototypeOf'', ''propertyIsEnumerable'',
      ''toString'', ''valueOf'', ''__proto__'', ''toLocaleString'']"

definition assign :: "'n OptionMap \<Rightarrow> string \<Rightarrow> 'n OutputType \<Rightarrow> 'n OptionMap" where
  "assign r k v = (if k = ''__proto__'' then r else setKey r k v)"

definition getKey :: "'n OptionMap \<Rightarrow> string \<Rightarrow> 'n OutputType" where
  "getKey r k =
     (if k = ''__proto__'' then Inherited k
      else
        (case map_of r k of
           Some v \<Rightarrow> v
         | None \<Rightarrow> if k \<in> set objectPrototypeMembers then Inherited k else Undefined))"

text \<open>
  \<open>Object.entries\<close> does not keep the order of declaration for every key: the keys that
  are array indices (the canonical decimal form of an integer from \<open>0\<close> to \<open>2^32 - 2\<close>) come
  first, in ascending numeric order, and the other keys follow in the order they were
  set.
\<close>

definition indexDigit :: "char \<Rightarrow> nat option" where
  "indexDigit c = map_of (zip ''0123456789'' [0, 1, 2, 3, 4, 5, 6, 7, 8, 9]) c"

definition arrayIndex :: "string \<Rightarrow> nat option" where
  "arrayIndex s =
     (if s = [] \<or> \<not> list_all (\<lambda>c. indexDigit c \<noteq> None) s \<or> (hd s = CHR ''0'' \<and> s \<noteq> ''0'')
      then None
      else
        (let n = foldl (\<lambda>a c. 10 * a + the (indexDigit c)) 0 s
         in if n < 4294967295 then Some n else None))"

definition objectEntries :: "(string \<times> 'v) list \<Rightarrow> (string \<times> 'v) list" where
  "objectEntries es =
     sort_key (\<lambda>e. the (arrayIndex (fst e))) (filter (\<lambda>e. arrayIndex (fst e) \<noteq> None) es) @
     filter (\<lambda>e. arrayIndex (fst e) = None) es"

definition keyOf :: "string option \<Rightarrow> string" where
  "keyOf n = (case n of None \<Rightarrow> ''undefined'' | Some k \<Rightarrow> k)"

text \<open>\<open>a ?? b\<close>; the model has no \<open>null\<close>.\<close>

definition nullish :: "'n OutputType \<Rightarrow> 'n OutputType \<Rightarrow> 'n OutputType" where
  "nullish a b = (if a = Undefined then b else a)"

text \<open>
  The first loop of \<open>parseOptions\<close>, with its cursor \<open>i\<close>: it ends with \<open>'help'\<close> or
  \<open>'version'\<close> returned, with an error thrown by \<open>parseArg\<close>, or at the end of the tokens
  with the result object and the list of unrecognized arguments.
\<close>

datatype 'n Scan = SawHelp | SawVersion | Scanned "'n OptionMap" "string list"

function scanArgs ::
  "'n NumericOps \<Rightarrow> (string \<times> 'n ProcessedBuilderConfig) list
     \<Rightarrow> (string \<times> 'n ProcessedBuilderConfig) list \<Rightarrow> string list \<Rightarrow> nat
     \<Rightarrow> 'n OptionMap \<Rightarrow> string list \<Rightarrow> 'n error + 'n Scan" where
  "scanArgs ops nonPositionalEntries positionalEntries args i result unrecognizedArgsArr =
     (if i < length args then
        (let arg = args ! i; nextArg = at args (i + 1) in
         case parseArg ops nonPositionalEntries positionalEntries arg nextArg of
           Inl e \<Rightarrow> Inl e
         | Inr (r, positionalEntries') \<Rightarrow>
             (let unrecognizedArgsArr' =
                    (if res_option r = None
                     then unrecognizedArgsArr @ [hd (split arg CHR ''='')]
                     else unrecognizedArgsArr);
                  i' = (if res_skipNext r then i + 1 else i);
                  result' = assign result (keyOf (res_name r)) (res_data r)
              in
              if isHelp r then Inr SawHelp
              else if isVersion r then Inr SawVersion
              else scanArgs ops nonPositionalEntries positionalEntries' args (i' + 1)
                     result' unrecognizedArgsArr'))
      else Inr (Scanned result unrecognizedArgsArr))"
  by pat_completeness auto
termination
  by (relation "measure (\<lambda>(ops, np, p, args, i, result, u). length args - i)") auto

declare scanArgs.simps [simp del]

text \<open>
  The second loop of \<open>parseOptions\<close>: defaults, and the list of the required options that
  are still undefined.
\<close>

fun applyDefaults ::
  "(string \<times> 'n ProcessedBuilderConfig) list \<Rightarrow> bool \<Rightarrow> 'n OptionMap \<Rightarrow> string list list
     \<Rightarrow> 'n OptionMap \<times> string list list" where
  "applyDefaults [] omitKeysOfUndefinedOptions result missingRequiredArr =
     (result, missingRequiredArr)"
| "applyDefaults ((optKey, option) # rest) omitKeysOfUndefinedOptions result missingRequiredArr =
     (let d = nullish (getKey result optKey) (default_val option);
          result' = (if \<not> omitKeysOfUndefinedOptions then assign result optKey d
                     else if d \<noteq> Undefined then assign result optKey d else result);
          missingRequiredArr' =
            (if isRequired option \<and> getKey result' optKey = Undefined
             then missingRequiredArr @ [opt_name option # opt_aliases option]
             else missingRequiredArr)
      in applyDefaults rest omitKeysOfUndefinedOptions result' missingRequiredArr')"

text \<open>What \<open>parseOptions\<close> returns: \<open>'help'\<close>, \<open>'version'\<close>, the result object, or \<open>undefined\<close>.\<close>

datatype 'n ParseResult = Help | Version | Options "'n OptionMap option"

text \<open>
  \<open>Object.entries(options ?? {})\<close>, each entry with its config. The field \<open>options\<close> of a
  command lists the keys in the order they were declared.
\<close>

definition optEntriesOf :: "'n Command \<Rightarrow> (string \<times> 'n ProcessedBuilderConfig) list" where
  "optEntriesOf command = objectEntries (case options command of None \<Rightarrow> [] | Some os \<Rightarrow> os)"

definition parseOptions ::
  "'n NumericOps \<Rightarrow> 'n Command \<Rightarrow> string list \<Rightarrow> bool \<Rightarrow> 'n error + 'n ParseResult" where
  "parseOptions ops command args omitKeysOfUndefinedOptions =
     (let optEntries = optEntriesOf command;
          nonPositionalEntries = filter (\<lambda>(key, opt). opt_type opt \<noteq> T_positional) optEntries;
          positionalEntries = filter (\<lambda>(key, opt). opt_type opt = T_positional) optEntries
      in
      case scanArgs ops nonPositionalEntries positionalEntries args 0 [] [] of
        Inl e \<Rightarrow> Inl e
      | Inr SawHelp \<Rightarrow> Inr Help
      | Inr SawVersion \<Rightarrow> Inr Version
      | Inr (Scanned result unrecognizedArgsArr) \<Rightarrow>
          (case applyDefaults optEntries omitKeysOfUndefinedOptions result [] of
             (result', missingRequiredArr) \<Rightarrow>
               if missingRequiredArr \<noteq> [] then Inl (MissingRequired (name command) missingRequiredArr)
               else if unrecognizedArgsArr \<noteq> []
               then Inl (UnrecognizedOptions (name command) unrecognizedArgsArr)
               else Inr (Options (if result' \<noteq> [] then Some result' else None))))"

text \<open>
  The test entry point, on the tokens \<open>shellArgs\<close> makes of its argument string (the
  tokenizer is a parameter: it rests on an external library). It catches every error and
  returns it as data; \<open>omitKeysOfUndefinedOptions\<close> is not passed, so it is falsy.
\<close>

datatype 'n TestResult =
    TestHandler "'n OptionMap option"
  | TestHelp
  | TestVersion
  | TestError "'n error"

definition test ::
  "(string \<Rightarrow> string list) \<Rightarrow> 'n NumericOps \<Rightarrow> 'n Command \<Rightarrow> string \<Rightarrow> 'n TestResult" where
  "test shellArgs ops command args =
     (let cliParsedArgs = shellArgs args in
      case parseOptions ops command cliParsedArgs False of
        Inl e \<Rightarrow> TestError e
      | Inr Help \<Rightarrow> TestHelp
      | Inr Version \<Rightarrow> TestVersion
      | Inr (Options options') \<Rightarrow>
          TestHandler (case transform command of Some f \<Rightarrow> f options' | None \<Rightarrow> options'))"

text \<open>
  The required options still missing after the scan: an entry is missing when its option
  is required and the value the scan has set for its key, or else its default, is
  \<open>undefined\<close> (\<open>ownValue\<close> reads the keys the scan has set and nothing else).
  \<open>namesOf\<close> is what the error lists for an entry: the canonical name, then the aliases.
\<close>

definition ownValue :: "'n OptionMap \<Rightarrow> string \<Rightarrow> 'n OutputType" where
  "ownValue r k = (case map_of r k of None \<Rightarrow> Undefined | Some v \<Rightarrow> v)"

definition stillMissing :: "'n OptionMap \<Rightarrow> (string \<times> 'n ProcessedBuilderConfig) \<Rightarrow> bool" where
  "stillMissing result entry =
     (isRequired (snd entry) \<and>
      nullish (ownValue result (fst entry)) (default_val (snd entry)) = Undefined)"

definition namesOf :: "(string \<times> 'n ProcessedBuilderConfig) \<Rightarrow> string list" where
  "namesOf entry = opt_name (snd entry) # opt_aliases (snd entry)"

section \<open>The execution pipeline\<close>

text \<open>
  \<open>validateCommands\<close>: at each sibling level, the registry \<open>storedNames\<close> of the names and
  aliases seen so far, keyed by command name. \<open>Object.values\<close> is read in the order the
  keys were set (an integer-like key would come first in the host language; the order
  only decides which of several occupiers is reported, and a name has at most one).
  The parent is an argument of the source that only its messages use.
\<close>

definition occupier :: "string list list \<Rightarrow> string \<Rightarrow> string list option" where
  "occupier storageVals n =
     List.find (\<lambda>storage. truthy (List.find (\<lambda>e. e = n) storage)) storageVals"

function validateLoop ::
  "(string \<times> string list) list \<Rightarrow> 'n Command list \<Rightarrow> 'n error + unit" where
  "validateLoop storedNames [] = Inr ()"
| "validateLoop storedNames (cmd # rest) =
     (let storageVals = map snd storedNames in
      case occupier storageVals (name cmd) of
        Some storage \<Rightarrow> Inl (CommandNameInUse (name cmd) (hd storage))
      | None \<Rightarrow>
          (case List.find (\<lambda>alias. occupier storageVals alias \<noteq> None)
                  (case aliases cmd of Some as \<Rightarrow> as | None \<Rightarrow> []) of
             Some alias \<Rightarrow>
               Inl (CommandAliasInUse (name cmd) alias (hd (the (occupier storageVals alias))))
           | None \<Rightarrow>
               (let storedNames' = setKey storedNames (name cmd) (commandNames cmd) in
                case subcommands cmd of
                  None \<Rightarrow> validateLoop storedNames' rest
                | Some subs \<Rightarrow>
                    (case validateLoop [] subs of
                       Inl e \<Rightarrow> Inl e
                     | Inr u \<Rightarrow> validateLoop storedNames' rest))))"
  by pat_completeness auto
termination
proof (relation "measure (\<lambda>(storedNames, commands). size_list size commands)")
  show "wf (measure (\<lambda>(storedNames :: (string \<times> string list) list, commands :: 'n Command list).
      size_list size commands))"
    by simp
next
  fix storedNames :: "(string \<times> string list) list" and cmd :: "'n Command" and rest x xa xb
  show "((xb, rest), (storedNames, cmd # rest))
      \<in> measure (\<lambda>(storedNames, commands). size_list size commands)"
    by simp
next
  fix storedNames :: "(string \<times> string list) list" and cmd :: "'n Command" and rest subs
  assume "subcommands cmd = Some subs"
  then have "size_list size subs < size cmd"
    by (cases cmd) simp
  then show "(([], subs), (storedNames, cmd # rest))
      \<in> measure (\<lambda>(storedNames, commands). size_list size commands)"
    by simp
next
  fix storedNames :: "(string \<times> string list) list" and cmd :: "'n Command" and rest x xa xb
  show "((xb, rest), (storedNames, cmd # rest))
      \<in> measure (\<lambda>(storedNames, commands). size_list size commands)"
    by simp
qed

definition validateCommands :: "'n Command list \<Rightarrow> 'n error + 'n Command list" where
  "validateCommands commands =
     (case validateLoop [] commands of Inl e \<Rightarrow> Inl e | Inr u \<Rightarrow> Inr commands)"

text \<open>\<open>arr.findIndex(p)\<close>: the first index, or \<open>-1\<close>.\<close>

fun findIndex :: "('a \<Rightarrow> bool) \<Rightarrow> 'a list \<Rightarrow> int" where
  "findIndex p [] = - 1"
| "findIndex p (x # xs) =
     (if p x then 0 else (let r = findIndex p xs in if r = - 1 then - 1 else r + 1))"

text \<open>
  Where the pipeline ends: an event passed to the event handler (global help, the help of
  a command, the version), or the handler of a command invoked on options. The hooks and
  the handler's own effects are outside the model.
\<close>

datatype 'n Route =
    GlobalHelp
  | CommandHelp "'n Command"
  | VersionEvent
  | Invoked "'n Command" "'n OptionMap option"

text \<open>The \<open>do ... while\<close> loop of \<open>rawCli\<close> that resolves the target of a \<open>help\<close> literal.\<close>

function helpLoop :: "'n Command list \<Rightarrow> string list \<Rightarrow> 'n error + 'n Route" where
  "helpLoop processedCmds newestArgs =
     (case getCommand processedCmds newestArgs of
        Inl e \<Rightarrow> Inl e
      | Inr (helpCommand, args') \<Rightarrow>
          (case helpCommand of
             HelpLiteral \<Rightarrow> helpLoop processedCmds args'
           | Cmd c \<Rightarrow> Inr (CommandHelp c)
           | NoCommand \<Rightarrow> Inr GlobalHelp))"
  by pat_completeness auto
termination
proof (relation "measure (\<lambda>(processedCmds, newestArgs). length newestArgs)")
  show "wf (measure (\<lambda>(processedCmds :: 'n Command list, newestArgs :: string list).
      length newestArgs))"
    by simp
next
  fix processedCmds :: "'n Command list" and newestArgs x2 helpCommand args'
  assume g: "getCommand processedCmds newestArgs = Inr x2"
    and x2: "(helpCommand, args') = x2" and h: "helpCommand = HelpLiteral"
  have bound: "0 \<le> originalIndex c \<and> nat (originalIndex c) < length newestArgs"
    if "c \<in> set (scanCandidates newestArgs i)" for c i
    using that
  proof (induction "length newestArgs - i" arbitrary: i rule: less_induct)
    case less
    from less.prems have "i < length newestArgs \<and>
        (c = \<lparr>data = newestArgs ! i, originalIndex = int i\<rparr> \<or>
         c \<in> set (scanCandidates newestArgs (i + 1)) \<or>
         c \<in> set (scanCandidates newestArgs (i + 2)))"
      by (subst (asm) scanCandidates.simps) (auto simp: Let_def split: if_splits)
    then show ?case
      using less.hyps [of "i + 1"] less.hyps [of "i + 2"] by fastforce
  qed
  from g x2 h have ne: "scanCandidates newestArgs 0 \<noteq> []"
    and a: "args' = removeByIndex newestArgs (originalIndex (hd (scanCandidates newestArgs 0)))"
    by (auto simp: getCommand_def Let_def split: if_splits sum.splits option.splits prod.splits)
  from ne have "hd (scanCandidates newestArgs 0) \<in> set (scanCandidates newestArgs 0)"
    by simp
  from bound [OF this] have "length args' < length newestArgs"
    unfolding a by (auto simp: removeByIndex_def slice_def Let_def min_def max_def)
  then show "((processedCmds, args'), (processedCmds, newestArgs))
      \<in> measure (\<lambda>(processedCmds, newestArgs). length newestArgs)"
    by simp
qed

declare helpLoop.simps [simp del]

text \<open>\<open>args[i]?.startsWith('-')\<close>, falsy when \<open>args[i]\<close> is \<open>undefined\<close>.\<close>

definition optStartsWith :: "string option \<Rightarrow> string \<Rightarrow> bool" where
  "optStartsWith a p = (case a of None \<Rightarrow> False | Some s \<Rightarrow> startsWith s p)"

text \<open>
  The two conditions under which \<open>rawCli\<close> takes a help or version flag of the raw tokens
  before it resolves a command.
\<close>

definition helpGuard :: "string list \<Rightarrow> bool" where
  "helpGuard args =
     (let helpIndex = findIndex (\<lambda>arg. arg = ''--help'' \<or> arg = ''-h'') args in
      helpIndex \<noteq> - 1 \<and>
      (if helpIndex > 0
       then (if optStartsWith (at args (nat (helpIndex - 1))) ''-'' \<and>
                \<not> includes_str (args ! nat (helpIndex - 1)) CHR ''=''
             then False else True)
       else True))"

definition versionGuard :: "string list \<Rightarrow> bool" where
  "versionGuard args =
     (let versionIndex = findIndex (\<lambda>arg. arg = ''--version'' \<or> arg = ''-v'') args in
      versionIndex \<noteq> - 1 \<and>
      (if versionIndex > 0
       then (if optStartsWith (at args (nat (versionIndex - 1))) ''-'' then False else True)
       else True))"

text \<open>
  \<open>rawCli\<close>, on the argument source and the flag \<open>omitKeysOfUndefinedOptions\<close> of its
  configuration.
\<close>

definition rawCli ::
  "'n NumericOps \<Rightarrow> 'n Command list \<Rightarrow> string list \<Rightarrow> bool \<Rightarrow> 'n error + 'n Route" where
  "rawCli ops commands argSource omitKeysOfUndefinedOptions =
     (case validateCommands commands of
        Inl e \<Rightarrow> Inl e
      | Inr processedCmds \<Rightarrow>
          (let args = slice argSource 2 (int (length argSource)) in
           if args = [] then Inr GlobalHelp
           else if helpGuard args then
             (case getCommand processedCmds args of
                Inl e \<Rightarrow> Inl e
              | Inr (command, newArgs) \<Rightarrow>
                  (case command of
                     Cmd c \<Rightarrow> Inr (CommandHelp c)
                   | HelpLiteral \<Rightarrow> Inr GlobalHelp
                   | NoCommand \<Rightarrow> Inr GlobalHelp))
           else if versionGuard args then Inr VersionEvent
           else
             (case getCommand processedCmds args of
                Inl e \<Rightarrow> Inl e
              | Inr (command, newArgs) \<Rightarrow>
                  (case command of
                     NoCommand \<Rightarrow> Inr GlobalHelp
                   | HelpLiteral \<Rightarrow> helpLoop processedCmds newArgs
                   | Cmd c \<Rightarrow>
                       (case parseOptions ops c newArgs omitKeysOfUndefinedOptions of
                          Inl e \<Rightarrow> Inl e
                        | Inr Help \<Rightarrow> Inr (CommandHelp c)
                        | Inr Version \<Rightarrow> Inr VersionEvent
                        | Inr (Options optionResult) \<Rightarrow>
                            if handler c
                            then Inr (Invoked c
                                   (case transform c of
                                      Some f \<Rightarrow> f optionResult
                                    | None \<Rightarrow> optionResult))
                            else Inr (CommandHelp c))))))"

text \<open>
  The tokens before the first one that satisfies \<open>p\<close>, when there is one. A \<open>--help\<close> or
  \<open>-h\<close> is taken at once when the first of them stands first or does not follow a token
  that starts with the flag prefix and has no \<open>=\<close>; a \<open>--version\<close> or \<open>-v\<close>, when the first
  of them stands first or follows a token that does not start with the flag prefix.
\<close>

definition beforeFirst :: "('a \<Rightarrow> bool) \<Rightarrow> 'a list \<Rightarrow> 'a list option" where
  "beforeFirst p xs =
     (let pre = takeWhile (\<lambda>x. \<not> p x) xs in if length pre < length xs then Some pre else None)"

definition helpTaken :: "string list \<Rightarrow> bool" where
  "helpTaken args =
     (case beforeFirst (\<lambda>arg. arg = ''--help'' \<or> arg = ''-h'') args of
        None \<Rightarrow> False
      | Some pre \<Rightarrow>
          pre = [] \<or> \<not> (startsWith (last pre) ''-'' \<and> \<not> includes_str (last pre) CHR ''=''))"

definition versionTaken :: "string list \<Rightarrow> bool" where
  "versionTaken args =
     (case beforeFirst (\<lambda>arg. arg = ''--version'' \<or> arg = ''-v'') args of
        None \<Rightarrow> False
      | Some pre \<Rightarrow> pre = [] \<or> \<not> startsWith (last pre) ''-'')"

section \<open>Definition of commands\<close>

text \<open>
  The errors of definition time (\<open>BroCliError\<close> in the source), each with the arguments of
  its message.
\<close>

datatype BroCliError =
    OptionNameHasEq string
  | ReservedOptionName string string
  | OptionNameInUse string string
  | OptionAliasInUse string string string
  | DuplicateOptionAliases string string
  | SubcommandsWithPositionals "string option"
  | CommandWithoutName
  | CommandNameStartsWithDash string
  | CommandAliasStartsWithDash string
  | ReservedHelpName string
  | ReservedBooleanName string string
  | DuplicateCommandAlias string "string option"

text \<open>
  An option as the builder hands it over (its name may be missing), and a command as
  the user declares it. The declarations of these types are not part of the sources at
  hand; the fields are the ones \<open>validateOptions\<close> and \<open>command\<close> read. Two keys of one
  declaration are taken to hold two distinct builder objects; \<open>raw_options\<close> lists the
  keys in the order they were declared.
\<close>

record 'n BuilderConfig =
  cfg_name :: "string option"
  cfg_aliases :: "string list"
  cfg_type :: OptionType
  cfg_isRequired :: bool
  cfg_default :: "'n OutputType"
  cfg_enumVals :: "string list option"
  cfg_isInt :: bool
  cfg_minVal :: "'n option"
  cfg_maxVal :: "'n option"

record 'n RawCommand =
  raw_name :: "string option"
  raw_aliases :: "string list option"
  raw_options :: "(string \<times> 'n BuilderConfig) list option"
  raw_subcommands :: "'n Command list option"
  raw_transform :: "('n OptionMap option \<Rightarrow> 'n OptionMap option) option"
  raw_handler :: bool

definition generatePrefix :: "string \<Rightarrow> string" where
  "generatePrefix n =
     (if startsWith n ''-'' then n else if length n > 1 then ''--'' @ n else ''-'' @ n)"

definition processed ::
  "'n BuilderConfig \<Rightarrow> string \<Rightarrow> string list \<Rightarrow> 'n ProcessedBuilderConfig" where
  "processed cfg n as =
     \<lparr>opt_name = n, opt_aliases = as, opt_type = cfg_type cfg, isRequired = cfg_isRequired cfg,
      default_val = cfg_default cfg, enumVals = cfg_enumVals cfg, isInt = cfg_isInt cfg,
      minVal = cfg_minVal cfg, maxVal = cfg_maxVal cfg\<rparr>"

text \<open>The first loop of \<open>validateOptions\<close>: default names, the test for \<open>=\<close>, the prefixes.\<close>

definition prefixEntry ::
  "string \<times> 'n BuilderConfig \<Rightarrow> BroCliError + (string \<times> 'n ProcessedBuilderConfig)" where
  "prefixEntry entry =
     (let key = fst entry; cfg = snd entry;
          n = (case cfg_name cfg of None \<Rightarrow> key | Some n' \<Rightarrow> n')
      in
      if cfg_type cfg = T_positional then Inr (key, processed cfg n (cfg_aliases cfg))
      else if includes_str n CHR ''='' then Inl (OptionNameHasEq n)
      else if List.find (\<lambda>alias. includes_str alias CHR ''='') (cfg_aliases cfg) \<noteq> None
      then Inl (OptionNameHasEq n)
      else Inr (key, processed cfg (generatePrefix n) (map generatePrefix (cfg_aliases cfg))))"

fun prefixEntries ::
  "(string \<times> 'n BuilderConfig) list
     \<Rightarrow> BroCliError + (string \<times> 'n ProcessedBuilderConfig) list" where
  "prefixEntries [] = Inr []"
| "prefixEntries (entry # rest) =
     (case prefixEntry entry of
        Inl e \<Rightarrow> Inl e
      | Inr p \<Rightarrow> (case prefixEntries rest of Inl e \<Rightarrow> Inl e | Inr ps \<Rightarrow> Inr (p # ps)))"

text \<open>The first element of a list that also stands earlier in it (after \<open>seen\<close>).\<close>

fun firstDuplicate :: "'a list \<Rightarrow> 'a list \<Rightarrow> 'a option" where
  "firstDuplicate seen [] = None"
| "firstDuplicate seen (x # xs) =
     (if x \<in> set seen then Some x else firstDuplicate (seen @ [x]) xs)"

text \<open>The second loop of \<open>validateOptions\<close>, with its registry \<open>storedNames\<close>.\<close>

fun checkEntries ::
  "(string \<times> string list) list \<Rightarrow> (string \<times> 'n ProcessedBuilderConfig) list
     \<Rightarrow> BroCliError + (string \<times> 'n ProcessedBuilderConfig) list" where
  "checkEntries storedNames [] = Inr []"
| "checkEntries storedNames ((key, cfg) # rest) =
     (if opt_type cfg = T_positional then
        (case checkEntries storedNames rest of Inl e \<Rightarrow> Inl e | Inr es \<Rightarrow> Inr ((key, cfg) # es))
      else
        (let reservedNames = [''--help'', ''-h'', ''--version'', ''-v''];
             allNames = opt_name cfg # opt_aliases cfg;
             storageVals = map snd storedNames
         in
         case List.find (\<lambda>n. truthy (List.find (\<lambda>r. r = n) reservedNames)) allNames of
           Some match \<Rightarrow> Inl (ReservedOptionName (opt_name cfg) match)
         | None \<Rightarrow>
             (case occupier storageVals (opt_name cfg) of
                Some storage \<Rightarrow> Inl (OptionNameInUse (opt_name cfg) (hd storage))
              | None \<Rightarrow>
                  (case List.find (\<lambda>alias. occupier storageVals alias \<noteq> None) (opt_aliases cfg) of
                     Some alias \<Rightarrow>
                       Inl (OptionAliasInUse (opt_name cfg) alias
                              (hd (the (occupier storageVals alias))))
                   | None \<Rightarrow>
                       (case firstDuplicate [] allNames of
                          Some n \<Rightarrow> Inl (DuplicateOptionAliases (opt_name cfg) n)
                        | None \<Rightarrow>
                            (case checkEntries (setKey storedNames (opt_name cfg) allNames) rest of
                               Inl e \<Rightarrow> Inl e
                             | Inr es \<Rightarrow> Inr ((key, cfg) # es)))))))"

definition validateOptions ::
  "(string \<times> 'n BuilderConfig) list
     \<Rightarrow> BroCliError + (string \<times> 'n ProcessedBuilderConfig) list" where
  "validateOptions config =
     (case prefixEntries (objectEntries config) of
        Inl e \<Rightarrow> Inl e
      | Inr cfgEntries \<Rightarrow> checkEntries [] cfgEntries)"

text \<open>
  The checks \<open>command\<close> runs on each of \<open>allNames\<close> in turn: the name \<open>help\<close>, the boolean
  literals in any case, and a name that stands earlier in the list.
\<close>

fun checkNames :: "string \<Rightarrow> string option list \<Rightarrow> string option list \<Rightarrow> BroCliError option" where
  "checkNames cmdName seen [] = None"
| "checkNames cmdName seen (n # ns) =
     (if n = Some ''help'' then Some (ReservedHelpName cmdName)
      else if isBooleanLiteral (map_option toLowerCase n)
      then Some (ReservedBooleanName cmdName (the n))
      else if n \<in> set seen then Some (DuplicateCommandAlias cmdName n)
      else checkNames cmdName (seen @ [n]) ns)"

text \<open>
  \<open>command\<close>. The name is the declared one or else the first alias, which then leaves the
  aliases; an empty list of aliases becomes \<open>undefined\<close>. The assignment of parents is not
  modelled.
\<close>

definition command :: "'n RawCommand \<Rightarrow> BroCliError + 'n Command" where
  "command raw =
     (let allNames = (case raw_aliases raw of
                        Some as \<Rightarrow> raw_name raw # map Some as
                      | None \<Rightarrow> [raw_name raw])
      in
      if raw_subcommands raw \<noteq> None \<and>
         (case raw_options raw of
            None \<Rightarrow> False
          | Some os \<Rightarrow> List.find (\<lambda>opt. cfg_type opt = T_positional) (map snd os) \<noteq> None)
      then Inl (SubcommandsWithPositionals (raw_name raw))
      else
        (case (case raw_options raw of
                 None \<Rightarrow> Inr None
               | Some os \<Rightarrow> (case validateOptions os of Inl e \<Rightarrow> Inl e | Inr ps \<Rightarrow> Inr (Some ps))) of
           Inl e \<Rightarrow> Inl e
         | Inr processedOptions \<Rightarrow>
             (let cmdName = (case raw_name raw of
                               Some n \<Rightarrow> Some n
                             | None \<Rightarrow> (case raw_aliases raw of
                                          Some (a # r) \<Rightarrow> Some a
                                        | _ \<Rightarrow> None));
                  shifted = (case raw_name raw of
                               Some n \<Rightarrow> raw_aliases raw
                             | None \<Rightarrow> map_option tl (raw_aliases raw))
              in
              if \<not> truthy cmdName then Inl CommandWithoutName
              else
                (let n = the cmdName;
                     cmdAliases = (case shifted of Some (a # r) \<Rightarrow> Some (a # r) | _ \<Rightarrow> None)
                 in
                 if startsWith n ''-'' then Inl (CommandNameStartsWithDash n)
                 else if List.find (\<lambda>a. startsWith a ''-'')
                           (case cmdAliases of Some as \<Rightarrow> as | None \<Rightarrow> []) \<noteq> None
                 then Inl (CommandAliasStartsWithDash n)
                 else
                   (case checkNames n [] allNames of
                      Some e \<Rightarrow> Inl e
                    | None \<Rightarrow>
                        Inr (Command n cmdAliases processedOptions (raw_subcommands raw)
                               (raw_transform raw) (raw_handler raw)))))))"

text \<open>The names a declaration gives: the name, when there is one, then the aliases.\<close>

definition declaredNames :: "'n RawCommand \<Rightarrow> string list" where
  "declaredNames raw =
     (case raw_name raw of Some n \<Rightarrow> [n] | None \<Rightarrow> []) @
     (case raw_aliases raw of Some as \<Rightarrow> as | None \<Rightarrow> [])"

section \<open>Example inputs\<close>

text \<open>
  An interpretation of the numeric parameters for the examples: numbers are integers or
  \<open>NaN\<close> (\<open>None\<close>), and \<open>Number\<close> reads a non-empty string of decimal digits. On such strings
  it agrees with the host language; the examples use no other.
\<close>

definition digitVal :: "char \<Rightarrow> int option" where
  "digitVal c = map_of (zip ''0123456789'' [0, 1, 2, 3, 4, 5, 6, 7, 8, 9]) c"

definition decimal :: "string \<Rightarrow> int option" where
  "decimal s =
     (if s \<noteq> [] \<and> list_all (\<lambda>c. digitVal c \<noteq> None) s
      then Some (foldl (\<lambda>a c. 10 * a + the (digitVal c)) 0 s)
      else None)"

definition exampleOps :: "int option NumericOps" where
  "exampleOps =
     \<lparr>js_Number = decimal,
      js_isNaN = (\<lambda>n. n = None),
      util_isInt = (\<lambda>n. n \<noteq> None),
      js_less = (\<lambda>a b. case (a, b) of (Some x, Some y) \<Rightarrow> x < y | _ \<Rightarrow> False)\<rparr>"

text \<open>An option spec with nothing but a name and a kind, and commands built from such.\<close>

definition plainOption :: "string \<Rightarrow> OptionType \<Rightarrow> 'n ProcessedBuilderConfig" where
  "plainOption n t =
     \<lparr>opt_name = n, opt_aliases = [], opt_type = t, isRequired = False,
      default_val = Undefined, enumVals = None, isInt = False, minVal = None, maxVal = None\<rparr>"

definition push :: "'n Command" where
  "push = Command ''push'' None None None None True"

definition pushWith :: "(string \<times> 'n ProcessedBuilderConfig) list \<Rightarrow> 'n Command" where
  "pushWith os = Command ''push'' None (Some os) None None True"

definition modeOption :: "'n ProcessedBuilderConfig" where
  "modeOption = (plainOption ''mode'' T_positional)\<lparr>enumVals := Some [''a'', ''b'']\<rparr>"

definition countOption :: "'n ProcessedBuilderConfig" where
  "countOption = plainOption ''--count'' T_number"

definition requiredOptions :: "(string \<times> 'n ProcessedBuilderConfig) list" where
  "requiredOptions =
     [(''count'', (plainOption ''--count'' T_number)\<lparr>isRequired := True\<rparr>),
      (''verbose'', plainOption ''--verbose'' T_boolean),
      (''branch'', (plainOption ''--branch'' T_string)\<lparr>isRequired := True, opt_aliases := [''-b'']\<rparr>)]"

definition indexKeyedOptions :: "(string \<times> 'n ProcessedBuilderConfig) list" where
  "indexKeyedOptions =
     [(''branch'', (plainOption ''--branch'' T_string)\<lparr>isRequired := True\<rparr>),
      (''10'', (plainOption ''--10'' T_string)\<lparr>isRequired := True\<rparr>),
      (''2'', (plainOption ''-2'' T_string)\<lparr>isRequired := True\<rparr>)]"

definition rawNamed :: "string \<Rightarrow> string list option \<Rightarrow> 'n RawCommand" where
  "rawNamed n as =
     \<lparr>raw_name = Some n, raw_aliases = as, raw_options = None, raw_subcommands = None,
      raw_transform = None, raw_handler = True\<rparr>"

section \<open>Properties of command resolution\<close>


















section \<open>Properties of option parsing\<close>

lemma hd_split: "hd (split s c) = takeWhile (\<lambda>x. x \<noteq> c) s"
  by (induction s) (auto simp: Let_def)

lemma namePart_not_reserved:
  assumes "\<not> startsWith arg ''-''"
  shows "hd (split arg CHR ''='') \<notin> {''--help'', ''-h'', ''--version'', ''-v''}"
  using assms by (cases arg) (auto simp: hd_split startsWith_def split: if_splits)

lemma scanArgs_step:
  assumes "i < length args"
    and "parseArg ops np pos (args ! i) (at args (i + 1)) = Inr (r, pos')"
    and "\<not> isHelp r" "\<not> isVersion r"
  shows "scanArgs ops np pos args i result unrec =
     scanArgs ops np pos' args (if res_skipNext r then i + 2 else i + 1)
       (assign result (keyOf (res_name r)) (res_data r))
       (if res_option r = None then unrec @ [hd (split (args ! i) CHR ''='')] else unrec)"
  using assms by (subst scanArgs.simps assign_def) (simp add: Let_def)

lemma scanArgs_unrecognized_kept:
  "scanArgs ops np pos args i result unrec = Inr (Scanned r u) \<Longrightarrow> \<exists>ys. u = unrec @ ys"
proof (induction "length args - i" arbitrary: i pos result unrec rule: less_induct)
  case less
  show ?case
  proof (cases "i < length args")
    case False
    with less.prems show ?thesis by (subst (asm) scanArgs.simps assign_def) simp
  next
    case True
    from less.prems True obtain p pos' where
      pa: "parseArg ops np pos (args ! i) (at args (i + 1)) = Inr (p, pos')"
      by (subst (asm) scanArgs.simps assign_def) (auto simp: Let_def split: sum.splits)
    from less.prems True pa have nh: "\<not> isHelp p" "\<not> isVersion p"
      by (subst (asm) scanArgs.simps assign_def; auto simp: Let_def split: if_splits)+
    let ?i = "if res_skipNext p then i + 2 else i + 1"
    let ?u = "if res_option p = None then unrec @ [hd (split (args ! i) CHR ''='')] else unrec"
    from less.prems have rec: "scanArgs ops np pos' args ?i
        (assign result (keyOf (res_name p)) (res_data p)) ?u = Inr (Scanned r u)"
      by (simp only: scanArgs_step [OF True pa nh])
    moreover have "length args - ?i < length args - i" using True by auto
    ultimately obtain ys where "u = ?u @ ys" using less.hyps by blast
    then show ?thesis by (cases "res_option p = None") auto
  qed
qed

lemma matchOption_no_name:
  assumes "namePart \<notin> set (opt_name opt # opt_aliases opt)"
  shows "matchOption ops opt namePart dataPart hasEq nextArg skipNext = Inr None"
proof -
  have "List.find (\<lambda>name. name = namePart) (opt_name opt # opt_aliases opt) = None"
    using assms by (auto simp: find_None_iff)
  then show ?thesis by (simp add: matchOption_def Let_def)
qed

lemma findOption_no_name:
  assumes "\<forall>entry \<in> set options'. namePart \<notin> set (opt_name (snd entry) # opt_aliases (snd entry))"
  shows "findOption ops options' namePart dataPart hasEq nextArg skipNext = Inr (None, Undefined, skipNext)"
  using assms by (induction options') (simp_all add: matchOption_no_name)

lemma map_of_setKey: "map_of (setKey r k v) = (map_of r)(k \<mapsto> v)"
  by (induction r) (auto simp: fun_eq_iff)

lemma getKey_proto: "getKey r ''__proto__'' = Inherited ''__proto__''"
  by (simp add: getKey_def)

lemma getKey_assign:
  "getKey (assign r k v) k' =
     (if k' = ''__proto__'' then Inherited k' else if k' = k then v else getKey r k')"
  by (auto simp: getKey_def assign_def map_of_setKey)

lemma getKey_ownValue: "k \<notin> set objectPrototypeMembers \<Longrightarrow> getKey r k = ownValue r k"
  by (auto simp: getKey_def ownValue_def objectPrototypeMembers_def split: option.splits)

lemma distinct_objectEntries: "distinct (map fst es) \<Longrightarrow> distinct (map fst (objectEntries es))"
  by (auto simp: objectEntries_def distinct_map inj_on_def)

lemma objectEntries_no_index:
  "\<forall>entry \<in> set es. arrayIndex (fst entry) = None \<Longrightarrow> objectEntries es = es"
  by (simp add: objectEntries_def filter_empty_conv)

lemma applyDefaults_missing:
  assumes "distinct (map fst optEntries)"
  shows "snd (applyDefaults optEntries omit result missing) =
     missing @ map namesOf
       (filter (\<lambda>e. isRequired (snd e) \<and>
                  nullish (getKey result (fst e)) (default_val (snd e)) = Undefined) optEntries)"
  using assms
proof (induction optEntries arbitrary: result missing)
  case Nil
  then show ?case by simp
next
  case (Cons entry rest)
  obtain optKey option where entry: "entry = (optKey, option)" by (cases entry)
  define d where "d = nullish (getKey result optKey) (default_val option)"
  define result' where "result' = (if \<not> omit then assign result optKey d
                     else if d \<noteq> Undefined then assign result optKey d else result)"
  have same: "getKey result' optKey = d"
    by (auto simp: result'_def getKey_assign getKey_proto d_def nullish_def)
  have other: "\<And>k. k \<noteq> optKey \<Longrightarrow> getKey result' k = getKey result k"
    by (simp add: result'_def getKey_assign getKey_proto)
  have rest: "filter (\<lambda>e. isRequired (snd e) \<and>
        nullish (getKey result' (fst e)) (default_val (snd e)) = Undefined) rest =
      filter (\<lambda>e. isRequired (snd e) \<and>
        nullish (getKey result (fst e)) (default_val (snd e)) = Undefined) rest"
  proof (rule filter_cong [OF refl])
    fix e assume "e \<in> set rest"
    then have "fst e \<noteq> optKey" using Cons.prems entry by force
    then show "(isRequired (snd e) \<and>
        nullish (getKey result' (fst e)) (default_val (snd e)) = Undefined) =
      (isRequired (snd e) \<and>
        nullish (getKey result (fst e)) (default_val (snd e)) = Undefined)"
      by (simp add: other)
  qed
  have dist: "distinct (map fst rest)" using Cons.prems by simp
  show ?case
    unfolding entry applyDefaults.simps Let_def d_def [symmetric] result'_def [symmetric]
    by (simp add: Cons.IH [OF dist] rest same) (simp add: namesOf_def d_def)
qed

lemma matchOption_number:
  assumes "matchOption ops opt namePart dataPart hasEq nextArg skipNext = Inr (Some (d, sk))"
    and "opt_type opt = T_number"
  shows "d = toOutput dataPart \<and> (hasEq \<or> nextArg \<noteq> None)"
  using assms by (auto simp: matchOption_def Let_def split: if_splits)

lemma findOption_number:
  assumes "findOption ops options' namePart dataPart hasEq nextArg skipNext = Inr (Some entry, d, sk)"
    and "opt_type (snd entry) = T_number"
  shows "d = toOutput dataPart \<and> (hasEq \<or> nextArg \<noteq> None)"
  using assms
proof (induction options')
  case Nil
  then show ?case by simp
next
  case (Cons e rest)
  show ?case
  proof (cases "matchOption ops (snd e) namePart dataPart hasEq nextArg skipNext")
    case (Inl err)
    with Cons.prems show ?thesis by simp
  next
    case (Inr m)
    show ?thesis
    proof (cases m)
      case None
      with Inr Cons show ?thesis by simp
    next
      case (Some p)
      with Inr Cons.prems have "entry = e" "p = (d, sk)" by (auto split: prod.splits)
      with Inr Some Cons.prems(2) matchOption_number show ?thesis by blast
    qed
  qed
qed

text \<open>
  Claim C1, as amended. A token that starts with the flag prefix, whose part before the
  first \<open>=\<close> is none of \<open>--help\<close>, \<open>-h\<close>, \<open>--version\<close>, \<open>-v\<close> and is no name or alias of a
  declared non-positional option: the loop of \<open>parseOptions\<close> appends that part to the list
  of unrecognized arguments and goes on, after the token when the token contains \<open>=\<close>,
  and after the token that follows it when it does not (the following token is then
  skipped as the flag's presumed value); a scan that completes from there has a
  non-empty list of unrecognized arguments. So \<open>--nope=2 --also-nope=1\<close> raises one error
  naming \<open>--nope\<close> and \<open>--also-nope\<close> (the witness), and \<open>--nope --also-nope=1\<close> one that
  names \<open>--nope\<close> only (the counterexample to the claim as it was stated).
\<close>

theorem scanArgs_unrecognized_flag:
  assumes "i < length args"
    and "startsWith (args ! i) ''-''"
    and "hd (split (args ! i) CHR ''='') \<notin> {''--help'', ''-h'', ''--version'', ''-v''}"
    and "\<forall>entry \<in> set nonPositionalEntries.
           hd (split (args ! i) CHR ''='') \<notin> set (opt_name (snd entry) # opt_aliases (snd entry))"
  shows "scanArgs ops nonPositionalEntries positionalEntries args i result unrecognizedArgsArr =
     scanArgs ops nonPositionalEntries positionalEntries args
       (if includes_str (args ! i) CHR ''='' then i + 1 else i + 2)
       (setKey result ''undefined'' Undefined)
       (unrecognizedArgsArr @ [hd (split (args ! i) CHR ''='')]) \<and>
     scanArgs ops nonPositionalEntries positionalEntries args i result unrecognizedArgsArr \<noteq>
       Inr (Scanned r [])"
proof -
  let ?arg = "args ! i"
  have p: "parseArg ops nonPositionalEntries positionalEntries ?arg (at args (i + 1)) =
      Inr (emptyRes\<lparr>res_skipNext := \<not> includes_str ?arg CHR ''=''\<rparr>, positionalEntries)"
    using assms(2,3) findOption_no_name [OF assms(4)]
    by (simp add: parseArg_def Let_def emptyRes_def)
  have s: "scanArgs ops nonPositionalEntries positionalEntries args i result unrecognizedArgsArr =
     scanArgs ops nonPositionalEntries positionalEntries args
       (if includes_str (args ! i) CHR ''='' then i + 1 else i + 2)
       (setKey result ''undefined'' Undefined)
       (unrecognizedArgsArr @ [hd (split (args ! i) CHR ''='')])"
    by (subst scanArgs_step [OF assms(1) p]) (auto simp: emptyRes_def keyOf_def assign_def)
  have "scanArgs ops nonPositionalEntries positionalEntries args
       (if includes_str (args ! i) CHR ''='' then i + 1 else i + 2)
       (setKey result ''undefined'' Undefined)
       (unrecognizedArgsArr @ [hd (split (args ! i) CHR ''='')]) \<noteq> Inr (Scanned r [])"
    using scanArgs_unrecognized_kept by fastforce
  with s show ?thesis by simp
qed

theorem scanArgs_unrecognized_flag_witness:
  "parseOptions exampleOps push [''--nope=2'', ''--also-nope=1''] False =
     Inl (UnrecognizedOptions ''push'' [''--nope'', ''--also-nope''])"
proof -
  have "scanArgs exampleOps [] [] [''--nope=2'', ''--also-nope=1''] 0 [] [] =
      scanArgs exampleOps [] [] [''--nope=2'', ''--also-nope=1''] 1
        [(''undefined'', Undefined)] [''--nope'']"
    using scanArgs_unrecognized_flag
      [of 0 "[''--nope=2'', ''--also-nope=1'']" "[]" exampleOps "[]" "[]" "[]" "[]"]
    by (simp add: startsWith_def includes_str_def)
  then show ?thesis
    by (simp add: parseOptions_def optEntriesOf_def objectEntries_def arrayIndex_def indexDigit_def push_def scanArgs.simps assign_def parseArg_def
        startsWith_def includes_str_def at_def emptyRes_def keyOf_def)
qed

theorem unrecognized_flag_consumes_next:
  "parseOptions exampleOps push [''--nope'', ''--also-nope=1''] False =
     Inl (UnrecognizedOptions ''push'' [''--nope''])"
  by (simp add: parseOptions_def optEntriesOf_def objectEntries_def arrayIndex_def indexDigit_def push_def scanArgs.simps assign_def parseArg_def
      startsWith_def includes_str_def at_def emptyRes_def keyOf_def)

text \<open>
  Claim C2, as amended. A token that does not start with the flag prefix and arrives when
  the queue of positional specs is empty is bound to no option, but it is not dropped
  silently: the loop of \<open>parseOptions\<close> appends its part before the first \<open>=\<close> to the list of
  unrecognized arguments (and sets the key \<open>undefined\<close> of the result) and goes on with
  the next token; a scan that completes from there has a non-empty list of unrecognized
  arguments. A parse with the one token \<open>extra\<close> so raises the error of unrecognized
  options, where the parse without it returns normally (the counterexample).
\<close>

theorem scanArgs_extra_positional:
  assumes "i < length args" and "\<not> startsWith (args ! i) ''-''"
  shows "scanArgs ops nonPositionalEntries [] args i result unrecognizedArgsArr =
     scanArgs ops nonPositionalEntries [] args (i + 1)
       (setKey result ''undefined'' Undefined)
       (unrecognizedArgsArr @ [hd (split (args ! i) CHR ''='')]) \<and>
     scanArgs ops nonPositionalEntries [] args i result unrecognizedArgsArr \<noteq> Inr (Scanned r [])"
proof -
  let ?arg = "args ! i"
  have p: "parseArg ops nonPositionalEntries [] ?arg (at args (i + 1)) = Inr (emptyRes, [])"
    using assms(2) namePart_not_reserved [OF assms(2)]
    by (simp add: parseArg_def Let_def)
  have s: "scanArgs ops nonPositionalEntries [] args i result unrecognizedArgsArr =
     scanArgs ops nonPositionalEntries [] args (i + 1)
       (setKey result ''undefined'' Undefined)
       (unrecognizedArgsArr @ [hd (split (args ! i) CHR ''='')])"
    by (subst scanArgs_step [OF assms(1) p]) (auto simp: emptyRes_def keyOf_def assign_def)
  have "scanArgs ops nonPositionalEntries [] args (i + 1)
       (setKey result ''undefined'' Undefined)
       (unrecognizedArgsArr @ [hd (split (args ! i) CHR ''='')]) \<noteq> Inr (Scanned r [])"
    using scanArgs_unrecognized_kept by fastforce
  with s show ?thesis by simp
qed

theorem scanArgs_extra_positional_witness:
  "scanArgs exampleOps [] [] [''extra''] 0 [] [] = Inr (Scanned [(''undefined'', Undefined)] [''extra''])"
proof -
  have "scanArgs exampleOps [] [] [''extra''] 0 [] [] =
      scanArgs exampleOps [] [] [''extra''] 1 [(''undefined'', Undefined)] [''extra'']"
    using scanArgs_extra_positional [of 0 "[''extra'']" exampleOps "[]" "[]" "[]" "[]"]
    by (simp add: startsWith_def)
  then show ?thesis
    by (simp add: scanArgs.simps assign_def)
qed

theorem extra_positional_is_reported:
  "parseOptions exampleOps push [''extra''] False = Inl (UnrecognizedOptions ''push'' [''extra'']) \<and>
   parseOptions exampleOps push [] False = Inr (Options None)"
  by (simp add: parseOptions_def optEntriesOf_def objectEntries_def arrayIndex_def indexDigit_def push_def scanArgs.simps assign_def parseArg_def
      startsWith_def includes_str_def at_def emptyRes_def keyOf_def)

text \<open>
  Claim C3 (the code departs from it). The positional branch of \<open>parseArg\<close> tests the enum
  against \<open>dataPart\<close>, which is the text after the first \<open>=\<close> of the token or else the
  following token, not against the token itself. With the allowed values \<open>a\<close> and \<open>b\<close>: the
  single token \<open>a\<close>, a member, raises the enum violation (there is no following token);
  the token \<open>x=a\<close>, not a member, is recorded as the value.
\<close>

theorem positional_enum_checks_wrong_value:
  "parseOptions exampleOps (pushWith [(''mode'', modeOption)]) [''a''] False =
     Inl (EnumViolationPos ''mode'' ''a'' [''a'', ''b'']) \<and>
   parseOptions exampleOps (pushWith [(''mode'', modeOption)]) [''x=a''] False =
     Inr (Options (Some [(''mode'', Str ''x=a'')]))"
  by (simp add: parseOptions_def optEntriesOf_def objectEntries_def arrayIndex_def indexDigit_def pushWith_def modeOption_def plainOption_def
      scanArgs.simps assign_def parseArg_def notInEnum_def getKey_def objectPrototypeMembers_def nullish_def
      startsWith_def includes_str_def at_def emptyRes_def keyOf_def)

text \<open>
  Claim C5, as amended. When the scan of the tokens completes and some required options
  are still missing, \<open>parseOptions\<close> raises the one error \<open>MissingRequired\<close>, which lists
  exactly the missing options (name, then aliases) in the order of \<open>Object.entries\<close>: the
  options whose keys are array indices first, by ascending index, then the others in
  the order of their declaration; so in the order of declaration when no key is an array
  index. This holds whatever the list of unrecognized arguments is, so the error comes
  before the one for unrecognized options. The keys of the declared options are distinct,
  as the keys of an object are, and none of them is the name of a member of
  \<open>Object.prototype\<close>. Three required options declared under the keys \<open>branch\<close>, \<open>10\<close>
  and \<open>2\<close> are listed as \<open>-2\<close>, \<open>--10\<close>, \<open>--branch\<close>.
\<close>

theorem parseOptions_missing_required:
  assumes "scanArgs ops
       (filter (\<lambda>(key, opt). opt_type opt \<noteq> T_positional) (optEntriesOf cmd))
       (filter (\<lambda>(key, opt). opt_type opt = T_positional) (optEntriesOf cmd))
       args 0 [] [] = Inr (Scanned result unrecognizedArgsArr)"
    and "declared = (case options cmd of None \<Rightarrow> [] | Some os \<Rightarrow> os)"
    and "distinct (map fst declared)"
    and "\<forall>entry \<in> set declared. fst entry \<notin> set objectPrototypeMembers"
    and "filter (stillMissing result) (optEntriesOf cmd) \<noteq> []"
  shows "parseOptions ops cmd args omitKeysOfUndefinedOptions =
     Inl (MissingRequired (name cmd)
            (map namesOf (filter (stillMissing result) (optEntriesOf cmd)))) \<and>
     optEntriesOf cmd =
       sort_key (\<lambda>e. the (arrayIndex (fst e))) (filter (\<lambda>e. arrayIndex (fst e) \<noteq> None) declared) @
       filter (\<lambda>e. arrayIndex (fst e) = None) declared \<and>
     ((\<forall>entry \<in> set declared. arrayIndex (fst entry) = None) \<longrightarrow> optEntriesOf cmd = declared)"
proof -
  have oe: "optEntriesOf cmd = objectEntries declared"
    by (simp add: optEntriesOf_def assms(2))
  have dist: "distinct (map fst (optEntriesOf cmd))"
    unfolding oe using assms(3) by (rule distinct_objectEntries)
  have keys: "\<And>e. e \<in> set (optEntriesOf cmd) \<Longrightarrow> fst e \<notin> set objectPrototypeMembers"
    using assms(4) by (auto simp: oe objectEntries_def)
  have same: "filter (\<lambda>e. isRequired (snd e) \<and>
        nullish (getKey result (fst e)) (default_val (snd e)) = Undefined) (optEntriesOf cmd) =
      filter (stillMissing result) (optEntriesOf cmd)"
    by (rule filter_cong [OF refl]) (simp add: stillMissing_def getKey_ownValue [OF keys])
  obtain result' missingRequiredArr where
    ad: "applyDefaults (optEntriesOf cmd) omitKeysOfUndefinedOptions result [] =
      (result', missingRequiredArr)"
    by (cases "applyDefaults (optEntriesOf cmd) omitKeysOfUndefinedOptions result []")
  have "missingRequiredArr = map namesOf (filter (stillMissing result) (optEntriesOf cmd))"
    using applyDefaults_missing [OF dist, of omitKeysOfUndefinedOptions result "[]"]
    by (simp add: ad same)
  with assms(1,5) ad
  have p: "parseOptions ops cmd args omitKeysOfUndefinedOptions =
     Inl (MissingRequired (name cmd)
            (map namesOf (filter (stillMissing result) (optEntriesOf cmd))))"
    by (simp add: parseOptions_def Let_def)
  from p oe objectEntries_no_index [of declared] show ?thesis
    by (simp add: objectEntries_def)
qed

theorem parseOptions_missing_required_witness:
  "parseOptions exampleOps (pushWith requiredOptions) [''--nope=1''] False =
     Inl (MissingRequired ''push'' [[''--count''], [''--branch'', ''-b'']])"
proof -
  have oe: "optEntriesOf (pushWith requiredOptions :: int option Command) = requiredOptions"
    by (simp add: optEntriesOf_def objectEntries_def arrayIndex_def indexDigit_def pushWith_def
        requiredOptions_def)
  have scan: "scanArgs exampleOps
       (filter (\<lambda>(key, opt). opt_type opt \<noteq> T_positional) (optEntriesOf (pushWith requiredOptions)))
       (filter (\<lambda>(key, opt). opt_type opt = T_positional) (optEntriesOf (pushWith requiredOptions)))
       [''--nope=1''] 0 [] [] = Inr (Scanned [(''undefined'', Undefined)] [''--nope''])"
    unfolding oe
    by (simp add: requiredOptions_def plainOption_def scanArgs.simps assign_def parseArg_def
        matchOption_def startsWith_def includes_str_def at_def emptyRes_def keyOf_def)
  have decl: "requiredOptions =
      (case options (pushWith requiredOptions :: int option Command) of None \<Rightarrow> [] | Some os \<Rightarrow> os)"
    by (simp add: pushWith_def)
  have dist: "distinct (map fst (requiredOptions :: (string \<times> int option ProcessedBuilderConfig) list))"
    by (simp add: requiredOptions_def)
  have keys: "\<forall>entry \<in> set (requiredOptions :: (string \<times> int option ProcessedBuilderConfig) list).
      fst entry \<notin> set objectPrototypeMembers"
    by (simp add: requiredOptions_def objectPrototypeMembers_def)
  have miss: "filter (stillMissing [(''undefined'', Undefined)])
      (optEntriesOf (pushWith requiredOptions :: int option Command)) \<noteq> []"
    unfolding oe
    by (simp add: requiredOptions_def plainOption_def stillMissing_def nullish_def ownValue_def)
  from parseOptions_missing_required [OF scan decl dist keys miss, of False, THEN conjunct1]
  show ?thesis
    unfolding oe
    by (simp add: pushWith_def requiredOptions_def plainOption_def
        stillMissing_def namesOf_def nullish_def ownValue_def)
qed

theorem missing_required_index_keys_first:
  "parseOptions exampleOps (pushWith indexKeyedOptions) [] False =
     Inl (MissingRequired ''push'' [[''-2''], [''--10''], [''--branch'']])"
  by (simp add: parseOptions_def optEntriesOf_def objectEntries_def arrayIndex_def indexDigit_def
      pushWith_def indexKeyedOptions_def plainOption_def scanArgs.simps assign_def
      getKey_def objectPrototypeMembers_def nullish_def)

text \<open>
  Claim C6 (the code departs from it). When \<open>parseArg\<close> matches a flag with an option of
  the number kind and every numeric check passes, the value it returns is the string of
  the supplied token (the text after the first \<open>=\<close>, or else the following token), not
  the number read from it: for every interpretation of the numeric operations the value
  is a \<open>Str\<close>. The witness is the parse of \<open>--count 5\<close>, which binds \<open>count\<close> to the string
  \<open>5\<close>.
\<close>

theorem parseArg_number_keeps_string:
  assumes "parseArg ops options' positionals arg nextArg = Inr (r, positionals')"
    and "startsWith arg ''-''"
    and "res_option r = Some opt"
    and "opt_type opt = T_number"
  shows "res_data r =
      Str (if includes_str arg CHR ''='' then join (tl (split arg CHR ''='')) ''='' else the nextArg)
    \<and> (includes_str arg CHR ''='' \<or> nextArg \<noteq> None)"
proof -
  let ?hasEq = "includes_str arg CHR ''=''"
  let ?namePart = "hd (split arg CHR ''='')"
  let ?dataPart = "if ?hasEq then Some (join (tl (split arg CHR ''='')) ''='') else nextArg"
  from assms(1,2,3) obtain entry d sk where
    f: "findOption ops options' ?namePart ?dataPart ?hasEq nextArg (\<not> ?hasEq) = Inr (Some entry, d, sk)"
    and r: "res_data r = d" and e: "snd entry = opt"
    by (auto simp: parseArg_def Let_def emptyRes_def split: if_splits sum.splits prod.splits)
  from findOption_number [OF f] e assms(4)
  have "d = toOutput ?dataPart" and v: "?hasEq \<or> nextArg \<noteq> None" by simp_all
  with r show ?thesis by (auto simp: toOutput_def)
qed

theorem parseArg_number_keeps_string_witness:
  "parseArg exampleOps [(''count'', countOption)] [] ''--count'' (Some ''5'') =
     Inr (\<lparr>res_data = Str ''5'', res_skipNext = True, res_name = Some ''count'',
           res_option = Some countOption, isHelp = False, isVersion = False\<rparr>, []) \<and>
   parseOptions exampleOps (pushWith [(''count'', countOption)]) [''--count'', ''5''] False =
     Inr (Options (Some [(''count'', Str ''5'')]))"
proof -
  have p: "parseArg exampleOps [(''count'', countOption)] [] ''--count'' (Some ''5'') =
     Inr (\<lparr>res_data = Str ''5'', res_skipNext = True, res_name = Some ''count'',
           res_option = Some countOption, isHelp = False, isVersion = False\<rparr>, [])"
    by (simp add: parseArg_def matchOption_def numberOf_def exampleOps_def decimal_def
        digitVal_def toOutput_def countOption_def plainOption_def startsWith_def includes_str_def)
  have q: "parseOptions exampleOps (pushWith [(''count'', countOption)]) [''--count'', ''5''] False =
     Inr (Options (Some [(''count'', Str ''5'')]))"
    by (simp add: parseOptions_def optEntriesOf_def objectEntries_def arrayIndex_def indexDigit_def pushWith_def countOption_def plainOption_def
        scanArgs.simps assign_def parseArg_def matchOption_def numberOf_def exampleOps_def decimal_def
        digitVal_def toOutput_def getKey_def objectPrototypeMembers_def nullish_def
        startsWith_def includes_str_def at_def emptyRes_def keyOf_def)
  from parseArg_number_keeps_string [OF p] p q show ?thesis
    by (simp add: startsWith_def countOption_def plainOption_def)
qed

text \<open>
  Claim C10. When the scan completes with nothing unrecognized, nothing required is
  missing and the result object has no key, \<open>parseOptions\<close> returns \<open>undefined\<close>, not an empty
  object; the test entry point (which does not omit the keys of undefined options) then
  returns a handler result whose options are \<open>undefined\<close>, for a command without a
  transform. A command that declares no options, on no tokens, is such a parse (the
  witness).
\<close>

theorem parseOptions_no_keys_undefined:
  assumes "scanArgs ops
       (filter (\<lambda>(key, opt). opt_type opt \<noteq> T_positional) (optEntriesOf cmd))
       (filter (\<lambda>(key, opt). opt_type opt = T_positional) (optEntriesOf cmd))
       args 0 [] [] = Inr (Scanned result [])"
    and "applyDefaults (optEntriesOf cmd) omitKeysOfUndefinedOptions result [] = ([], [])"
  shows "parseOptions ops cmd args omitKeysOfUndefinedOptions = Inr (Options None) \<and>
     (\<not> omitKeysOfUndefinedOptions \<and> shellArgs str = args \<and> transform cmd = None \<longrightarrow>
        test shellArgs ops cmd str = TestHandler None)"
proof -
  have p: "parseOptions ops cmd args omitKeysOfUndefinedOptions = Inr (Options None)"
    using assms by (simp add: parseOptions_def Let_def)
  then show ?thesis
    by (auto simp: test_def Let_def)
qed

theorem parseOptions_no_keys_undefined_witness:
  "parseOptions exampleOps push [] False = Inr (Options None) \<and>
   test (\<lambda>s. []) exampleOps push [] = TestHandler None"
proof -
  have scan: "scanArgs exampleOps
       (filter (\<lambda>(key, opt). opt_type opt \<noteq> T_positional) (optEntriesOf push))
       (filter (\<lambda>(key, opt). opt_type opt = T_positional) (optEntriesOf push))
       [] 0 [] [] = Inr (Scanned [] [])"
    by (simp add: scanArgs.simps assign_def)
  have ad: "applyDefaults (optEntriesOf (push :: int option Command)) False [] [] = ([], [])"
    by (simp add: optEntriesOf_def objectEntries_def arrayIndex_def indexDigit_def push_def)
  from parseOptions_no_keys_undefined [OF scan ad, of "\<lambda>s. []" "[]"] show ?thesis
    by (simp add: push_def)
qed

section \<open>Properties of the execution pipeline\<close>

lemma findIndex_takeWhile:
  "findIndex p xs =
     (if length (takeWhile (\<lambda>x. \<not> p x) xs) < length xs
      then int (length (takeWhile (\<lambda>x. \<not> p x) xs)) else - 1)"
  by (induction xs) (auto simp: Let_def)

lemma last_takeWhile_nth:
  assumes "takeWhile q xs \<noteq> []"
  shows "at xs (nat (int (length (takeWhile q xs)) - 1)) = Some (last (takeWhile q xs))"
proof -
  let ?pre = "takeWhile q xs"
  have n: "nat (int (length ?pre) - 1) = length ?pre - 1" by simp
  have l: "length ?pre - 1 < length ?pre" using assms by simp
  have le: "length ?pre \<le> length xs" by (rule length_takeWhile_le)
  have "xs ! (length ?pre - 1) = ?pre ! (length ?pre - 1)"
    using l by (simp add: takeWhile_nth)
  also have "\<dots> = last ?pre" using assms by (simp add: last_conv_nth)
  finally show ?thesis using l le by (simp add: at_def n del: of_nat_diff)
qed

lemma helpGuard_helpTaken: "helpGuard args = helpTaken args"
proof (cases "takeWhile (\<lambda>x. \<not> (x = ''--help'' \<or> x = ''-h'')) args = []")
  case True
  then show ?thesis
    by (auto simp: helpGuard_def helpTaken_def findIndex_takeWhile beforeFirst_def Let_def)
next
  case False
  from last_takeWhile_nth [OF False]
  have a: "at args (nat (int (length (takeWhile (\<lambda>x. \<not> (x = ''--help'' \<or> x = ''-h'')) args)) - 1)) =
      Some (last (takeWhile (\<lambda>x. \<not> (x = ''--help'' \<or> x = ''-h'')) args))" .
  then have b: "args ! nat (int (length (takeWhile (\<lambda>x. \<not> (x = ''--help'' \<or> x = ''-h'')) args)) - 1) =
      last (takeWhile (\<lambda>x. \<not> (x = ''--help'' \<or> x = ''-h'')) args)"
    by (auto simp: at_def split: if_splits)
  show ?thesis
    using False a b
    by (auto simp: helpGuard_def helpTaken_def findIndex_takeWhile beforeFirst_def Let_def
        optStartsWith_def)
qed

lemma versionGuard_versionTaken: "versionGuard args = versionTaken args"
proof (cases "takeWhile (\<lambda>x. \<not> (x = ''--version'' \<or> x = ''-v'')) args = []")
  case True
  then show ?thesis
    by (auto simp: versionGuard_def versionTaken_def findIndex_takeWhile beforeFirst_def Let_def)
next
  case False
  from last_takeWhile_nth [OF False]
  have a: "at args (nat (int (length (takeWhile (\<lambda>x. \<not> (x = ''--version'' \<or> x = ''-v'')) args)) - 1)) =
      Some (last (takeWhile (\<lambda>x. \<not> (x = ''--version'' \<or> x = ''-v'')) args))" .
  show ?thesis
    using False a
    by (auto simp: versionGuard_def versionTaken_def findIndex_takeWhile beforeFirst_def Let_def
        optStartsWith_def)
qed

text \<open>
  Claim C4, as amended. On a non-empty token list of a valid command forest: when the
  first \<open>--help\<close> or \<open>-h\<close> of the raw tokens stands first, or does not follow a token that
  starts with the flag prefix and has no \<open>=\<close>, \<open>rawCli\<close> resolves the command on the raw
  tokens and ends with the help of the resolved command, with the global help when none
  (or the \<open>help\<close> literal) is resolved, or with the error of the resolution; otherwise, when
  the first \<open>--version\<close> or \<open>-v\<close> stands first or follows a token that does not start
  with the flag prefix, it ends with the version. So \<open>push --help\<close> ends with the help of
  \<open>push\<close> (the witness), and \<open>nosuch --help\<close> with the error of an unknown command (the
  counterexample to the claim as it was stated); a later \<open>--help\<close> is not looked at.
\<close>

theorem rawCli_help_version_first:
  assumes "validateCommands commands = Inr processedCmds"
    and "slice argSource 2 (int (length argSource)) = args"
    and "args \<noteq> []"
  shows "(helpTaken args \<longrightarrow>
            rawCli ops commands argSource omitKeysOfUndefinedOptions =
              (case getCommand processedCmds args of
                 Inl e \<Rightarrow> Inl e
               | Inr (resolved, newArgs) \<Rightarrow>
                   (case resolved of Cmd c \<Rightarrow> Inr (CommandHelp c) | _ \<Rightarrow> Inr GlobalHelp))) \<and>
         (\<not> helpTaken args \<and> versionTaken args \<longrightarrow>
            rawCli ops commands argSource omitKeysOfUndefinedOptions = Inr VersionEvent)"
  using assms
  by (auto simp: rawCli_def Let_def helpGuard_helpTaken versionGuard_versionTaken
      split: sum.splits prod.splits Resolved.splits)

theorem rawCli_help_version_first_witness:
  "rawCli exampleOps [push] [''node'', ''cli'', ''push'', ''--help''] False = Inr (CommandHelp push) \<and>
   rawCli exampleOps [push] [''node'', ''cli'', ''push'', ''--version''] False = Inr VersionEvent"
proof -
  have v: "validateCommands [push :: int option Command] = Inr [push]"
    by (simp add: validateCommands_def occupier_def commandNames_def push_def)
  have s1: "slice [''node'', ''cli'', ''push'', ''--help''] 2
      (int (length [''node'', ''cli'', ''push'', ''--help''])) = [''push'', ''--help'']"
    by (simp add: slice_def)
  have s2: "slice [''node'', ''cli'', ''push'', ''--version''] 2
      (int (length [''node'', ''cli'', ''push'', ''--version''])) = [''push'', ''--version'']"
    by (simp add: slice_def)
  have g: "getCommand [push :: int option Command] [''push'', ''--help''] = Inr (Cmd push, [''--help''])"
    by (simp add: getCommand_def scanCandidates.simps findCommand_def commandNames_def push_def
        removeByIndex_def slice_def startsWith_def includes_str_def at_def isBooleanLiteral_def)
  have h: "helpTaken [''push'', ''--help'']"
    by (simp add: helpTaken_def beforeFirst_def startsWith_def)
  have nh: "\<not> helpTaken [''push'', ''--version'']"
    by (simp add: helpTaken_def beforeFirst_def)
  have vt: "versionTaken [''push'', ''--version'']"
    by (simp add: versionTaken_def beforeFirst_def startsWith_def)
  from rawCli_help_version_first [OF v s1, of exampleOps False] h g
  have a: "rawCli exampleOps [push] [''node'', ''cli'', ''push'', ''--help''] False =
      Inr (CommandHelp push)"
    by simp
  from rawCli_help_version_first [OF v s2, of exampleOps False] nh vt
  have b: "rawCli exampleOps [push] [''node'', ''cli'', ''push'', ''--version''] False =
      Inr VersionEvent"
    by simp
  from a b show ?thesis by simp
qed

theorem help_flag_not_always_help:
  "rawCli exampleOps [push] [''node'', ''cli'', ''nosuch'', ''--help''] False =
     Inl (UnknownCommand ''nosuch'') \<and>
   rawCli exampleOps [pushWith [(''x'', plainOption ''--x'' T_number)]]
     [''node'', ''cli'', ''--x'', ''-h'', ''push'', ''--help''] False =
     Inl (InvalidNumberValue ''--x'' (Some ''-h''))"
  by (simp add: rawCli_def validateCommands_def occupier_def commandNames_def push_def pushWith_def plainOption_def
     slice_def helpGuard_def versionGuard_def getCommand_def scanCandidates.simps findCommand_def removeByIndex_def
     startsWith_def includes_str_def at_def optStartsWith_def isBooleanLiteral_def
     parseOptions_def optEntriesOf_def objectEntries_def arrayIndex_def indexDigit_def scanArgs.simps assign_def parseArg_def matchOption_def numberOf_def
     exampleOps_def decimal_def digitVal_def toLowerCase_def toLowerChar_def)

section \<open>Properties of the definition of commands\<close>

lemma checkNames_None:
  assumes "checkNames cn seen ns = None" and "x \<in> set ns"
  shows "x \<noteq> Some ''help'' \<and> \<not> isBooleanLiteral (map_option toLowerCase x)"
  using assms by (induction ns arbitrary: seen) (auto split: if_splits)

lemma find_None_all: "List.find p xs = None \<Longrightarrow> x \<in> set xs \<Longrightarrow> \<not> p x"
  by (simp add: find_None_iff)

lemma command_accepts:
  assumes "command raw = Inr cmd"
  shows "declaredNames raw \<noteq> [] \<and> hd (declaredNames raw) \<noteq> [] \<and>
     (\<forall>n \<in> set (declaredNames raw).
        \<not> startsWith n ''-'' \<and> n \<noteq> ''help'' \<and> \<not> isBooleanLiteral (Some (toLowerCase n)))"
proof -
  define allNames where "allNames = (case raw_aliases raw of
      Some as \<Rightarrow> raw_name raw # map Some as | None \<Rightarrow> [raw_name raw])"
  define cmdName where "cmdName = (case raw_name raw of Some n \<Rightarrow> Some n
      | None \<Rightarrow> (case raw_aliases raw of Some (a # r) \<Rightarrow> Some a | _ \<Rightarrow> None))"
  define shifted where "shifted = (case raw_name raw of Some n \<Rightarrow> raw_aliases raw
      | None \<Rightarrow> map_option tl (raw_aliases raw))"
  define cmdAliases where "cmdAliases = (case shifted of Some (a # r) \<Rightarrow> Some (a # r) | _ \<Rightarrow> None)"
  from assms have t: "truthy cmdName"
    and d: "\<not> startsWith (the cmdName) ''-''"
    and a: "List.find (\<lambda>a. startsWith a ''-'') (case cmdAliases of Some as \<Rightarrow> as | None \<Rightarrow> []) = None"
    and c: "checkNames (the cmdName) [] allNames = None"
    unfolding command_def Let_def allNames_def [symmetric] cmdName_def [symmetric]
      shifted_def [symmetric] cmdAliases_def [symmetric]
    by (auto split: if_splits sum.splits option.splits)
  have names: "declaredNames raw = the cmdName # (case cmdAliases of Some as \<Rightarrow> as | None \<Rightarrow> [])"
    using t
    by (auto simp: declaredNames_def cmdName_def cmdAliases_def shifted_def
        split: option.splits list.splits)
  have all: "Some n \<in> set allNames" if "n \<in> set (declaredNames raw)" for n
    using that by (auto simp: declaredNames_def allNames_def split: option.splits)
  show ?thesis
  proof (intro conjI ballI)
    show "declaredNames raw \<noteq> []" by (simp add: names)
    show "hd (declaredNames raw) \<noteq> []" using t by (cases cmdName) (simp_all add: names)
  next
    fix n assume n: "n \<in> set (declaredNames raw)"
    show "\<not> startsWith n ''-''"
      using n d find_None_all [OF a] by (auto simp: names)
    from checkNames_None [OF c all [OF n]]
    show "n \<noteq> ''help''" and "\<not> isBooleanLiteral (Some (toLowerCase n))" by simp_all
  qed
qed

text \<open>
  Claim C8, as amended. \<open>command\<close> rejects a declaration that gives no name (neither a
  name nor an alias), whose name (the declared one, or else the first alias) is empty, or
  one of whose names (the name or any alias) starts with the flag prefix, is exactly
  \<open>help\<close>, or is one of \<open>0\<close>, \<open>1\<close>, \<open>true\<close>, \<open>false\<close> in any case. The name \<open>help\<close> is
  compared as it is written, and an alias is not tested for being empty: \<open>HELP\<close> as a
  name and the empty string as an alias are accepted (the counterexample to the claim as
  it was stated).
\<close>

theorem command_rejects_reserved_names:
  assumes "declaredNames raw = [] \<or> hd (declaredNames raw) = [] \<or>
     (\<exists>n \<in> set (declaredNames raw).
        startsWith n ''-'' \<or> n = ''help'' \<or> isBooleanLiteral (Some (toLowerCase n)))"
  shows "\<exists>e. command raw = Inl e"
proof (cases "command raw")
  case (Inl e)
  then show ?thesis by blast
next
  case (Inr cmd)
  from command_accepts [OF Inr] assms show ?thesis by blast
qed

theorem command_rejects_reserved_names_witness:
  "(\<exists>e. command (rawNamed ''True'' None :: 'n RawCommand) = Inl e) \<and>
   command (rawNamed ''True'' None :: 'n RawCommand) = Inl (ReservedBooleanName ''True'' ''True'')"
proof -
  have h: "declaredNames (rawNamed ''True'' None :: 'n RawCommand) = [] \<or>
      hd (declaredNames (rawNamed ''True'' None :: 'n RawCommand)) = [] \<or>
      (\<exists>n \<in> set (declaredNames (rawNamed ''True'' None :: 'n RawCommand)).
         startsWith n ''-'' \<or> n = ''help'' \<or> isBooleanLiteral (Some (toLowerCase n)))"
    by (simp add: declaredNames_def rawNamed_def isBooleanLiteral_def toLowerCase_def
        toLowerChar_def)
  have e: "command (rawNamed ''True'' None :: 'n RawCommand) =
      Inl (ReservedBooleanName ''True'' ''True'')"
    by (simp add: command_def rawNamed_def startsWith_def isBooleanLiteral_def toLowerCase_def
        toLowerChar_def)
  from command_rejects_reserved_names [OF h] e show ?thesis by simp
qed

theorem command_accepts_upper_help_and_empty_alias:
  "command (rawNamed ''HELP'' None :: 'n RawCommand) =
     Inr (Command ''HELP'' None None None None True) \<and>
   command (rawNamed ''a'' (Some [[]]) :: 'n RawCommand) =
     Inr (Command ''a'' (Some [[]]) None None None True)"
  by (simp add: command_def rawNamed_def startsWith_def isBooleanLiteral_def toLowerCase_def
      toLowerChar_def)

end
